theory Spec2Isabelle
  imports Main "HOL-Library.Word"
begin

section \<open>Data of the JSON helpers (dart/server/RawJsonUtils.cpp)\<close>

text \<open>
  A \<open>std::stringstream&\<close> that is only written with \<open><<\<close> is modelled by the
  characters written to it so far; every helper takes the stream and returns it with
  its output appended.
\<close>

type_synonym sstream = string

text \<open>
  The scalar type \<open>s_t\<close> is a floating-point number. Only its IEEE class matters to
  the helpers (\<open>isfinite\<close>), so a scalar is either a finite value of an arbitrary
  carrier \<open>'r\<close>, one of the two infinities, or a NaN.
\<close>

datatype 'r s_t = Finite 'r | PosInf | NegInf | NaN

fun isfinite :: "'r s_t \<Rightarrow> bool" where
  "isfinite (Finite x) = True"
| "isfinite PosInf = False"
| "isfinite NegInf = False"
| "isfinite NaN = False"

text \<open>
  Fixed-size Eigen vectors are tuples of their components (\<open>vec(0)\<close>, \<open>vec(1)\<close>,
  \<open>vec(2)\<close>); \<open>Eigen::VectorXs\<close> and \<open>std::vector<s_t>\<close> are lists. The
  components of \<open>Vector2i\<close> and \<open>Vector3i\<close> are C++ \<open>int\<close>s: 32-bit words,
  read as signed numbers by \<open>sint\<close>.
\<close>

type_synonym 'a Vector2 = "'a \<times> 'a"
type_synonym 'a Vector3 = "'a \<times> 'a \<times> 'a"
type_synonym cint = "32 word"

text \<open>
  \<open>INT_MAX\<close>: the loops count with an \<open>int i\<close>. Incrementing it at this value is
  undefined behaviour in C++, which the loops below report as \<open>None\<close>.
\<close>

definition INT_MAX :: nat where
  "INT_MAX = 2147483647"

section \<open>The helpers\<close>

text \<open>
  How \<open>json << x\<close> prints a number belongs to the C++ stream (its flags, precision
  and locale), not to this file: each helper takes the inserter as its first argument,
  \<open>put\<close>, the text that \<open><<\<close> writes for one number.
\<close>

definition escapeJson :: "string \<Rightarrow> string" where
  "escapeJson str = str"



definition vec3ToJson :: "('r s_t \<Rightarrow> string) \<Rightarrow> sstream \<Rightarrow> 'r s_t Vector3 \<Rightarrow> sstream" where
  "vec3ToJson put json vec =
     (case vec of (v0, v1, v2) \<Rightarrow>
        json @ ''['' @ put v0 @ '','' @ put v1 @ '','' @ put v2 @ '']'')"


text \<open>
  The \<open>for\<close> loop of \<open>vecXToJson\<close>, entered with counter \<open>i\<close> and the stream as
  written so far. In the body \<open>i < vec.size()\<close> holds, so \<open>vec.size() - 1\<close> does not
  go below zero and the truncating subtraction of \<open>nat\<close> agrees with it.
\<close>

function vecXToJson_loop ::
  "('r s_t \<Rightarrow> string) \<Rightarrow> 'r s_t list \<Rightarrow> nat \<Rightarrow> sstream \<Rightarrow> sstream option" where
  "vecXToJson_loop put vec i json =
     (if i < length vec then
        (let json1 = json @ put (vec ! i);
             json2 = (if i < length vec - 1 then json1 @ '','' else json1)
         in if i = INT_MAX then None else vecXToJson_loop put vec (i + 1) json2)
      else Some json)"
  by pat_completeness auto
termination
  by (relation "measure (\<lambda>(put, vec, i, json). length vec - i)") auto

definition vecXToJson :: "('r s_t \<Rightarrow> string) \<Rightarrow> sstream \<Rightarrow> 'r s_t list \<Rightarrow> sstream option" where
  "vecXToJson put json vec =
     (case vecXToJson_loop put vec 0 (json @ ''['') of
        None \<Rightarrow> None
      | Some json' \<Rightarrow> Some (json' @ '']''))"

text \<open>The loop of \<open>vecToJson\<close>: the same, with the \<open>isfinite\<close> test on each element.\<close>

function vecToJson_loop ::
  "('r s_t \<Rightarrow> string) \<Rightarrow> 'r s_t list \<Rightarrow> nat \<Rightarrow> sstream \<Rightarrow> sstream option" where
  "vecToJson_loop put vec i json =
     (if i < length vec then
        (let json1 = (if isfinite (vec ! i) then json @ put (vec ! i) else json @ ''0.0'');
             json2 = (if i < length vec - 1 then json1 @ '','' else json1)
         in if i = INT_MAX then None else vecToJson_loop put vec (i + 1) json2)
      else Some json)"
  by pat_completeness auto
termination
  by (relation "measure (\<lambda>(put, vec, i, json). length vec - i)") auto

definition vecToJson :: "('r s_t \<Rightarrow> string) \<Rightarrow> sstream \<Rightarrow> 'r s_t list \<Rightarrow> sstream option" where
  "vecToJson put json vec =
     (case vecToJson_loop put vec 0 (json @ ''['') of
        None \<Rightarrow> None
      | Some json' \<Rightarrow> Some (json' @ '']''))"

section \<open>What a JSON array is\<close>

text \<open>
  The text of a JSON array with the given element texts: the elements in order,
  separated by commas, between square brackets. This definition is the yardstick the
  helpers are compared with; it is not taken from the source.
\<close>

fun comma_separated :: "string list \<Rightarrow> string" where
  "comma_separated [] = []"
| "comma_separated [e] = e"
| "comma_separated (e # e' # es) = e @ '','' @ comma_separated (e' # es)"

definition json_array :: "string list \<Rightarrow> string" where
  "json_array elems = ''['' @ comma_separated elems @ '']''"








section \<open>Data of the server (dart/server/GUIWebsocketServer.hpp)\<close>

text \<open>
  The header declares the server's state and its operations; the operations' bodies
  are defined elsewhere (GUIWebsocketServer.cpp). The structs are the header's, field
  by field; a field is selected with the struct's name in front (\<open>Box.pos b\<close>).
  \<open>Slider::value\<close> is written \<open>value'\<close>. A \<open>std::function\<close> field is a value of a
  type parameter.
\<close>

record 'r Box =
  key :: string
  size :: "'r s_t Vector3"
  pos :: "'r s_t Vector3"
  euler :: "'r s_t Vector3"
  color :: "'r s_t Vector3"
  castShadows :: bool
  receiveShadows :: bool

record 'r Sphere =
  key :: string
  radius :: "'r s_t"
  pos :: "'r s_t Vector3"
  color :: "'r s_t Vector3"
  castShadows :: bool
  receiveShadows :: bool

record 'r Capsule =
  key :: string
  radius :: "'r s_t"
  height :: "'r s_t"
  pos :: "'r s_t Vector3"
  euler :: "'r s_t Vector3"
  color :: "'r s_t Vector3"
  castShadows :: bool
  receiveShadows :: bool

record 'r Line =
  key :: string
  points :: "'r s_t Vector3 list"
  color :: "'r s_t Vector3"

record 'r Mesh =
  key :: string
  vertices :: "'r s_t Vector3 list"
  vertexNormals :: "'r s_t Vector3 list"
  faces :: "cint Vector3 list"
  uv :: "'r s_t Vector2 list"
  textures :: "string list"
  textureStartIndices :: "cint list"
  pos :: "'r s_t Vector3"
  euler :: "'r s_t Vector3"
  scale :: "'r s_t Vector3"
  color :: "'r s_t Vector3"
  castShadows :: bool
  receiveShadows :: bool

record Texture =
  key :: string
  base64 :: string

record Text =
  key :: string
  contents :: string
  fromTopLeft :: "cint Vector2"
  size :: "cint Vector2"

record 'click Button =
  key :: string
  label :: string
  fromTopLeft :: "cint Vector2"
  size :: "cint Vector2"
  onClick :: 'click

record ('r, 'change) Slider =
  key :: string
  fromTopLeft :: "cint Vector2"
  size :: "cint Vector2"
  min :: "'r s_t"
  max :: "'r s_t"
  value' :: "'r s_t"
  onlyInts :: bool
  horizontal :: bool
  onChange :: 'change

record 'r Plot =
  key :: string
  fromTopLeft :: "cint Vector2"
  size :: "cint Vector2"
  xs :: "'r s_t list"
  minX :: "'r s_t"
  maxX :: "'r s_t"
  ys :: "'r s_t list"
  minY :: "'r s_t"
  maxY :: "'r s_t"
  type :: string

text \<open>
  The object containers of the server, one \<open>std::unordered_map\<close> from key to struct
  per kind, and the set of keys with mouse interaction enabled.
\<close>

record ('r, 'click, 'change) scene =
  mMouseInteractionEnabled :: "string set"
  mBoxes :: "string \<rightharpoonup> 'r Box"
  mSpheres :: "string \<rightharpoonup> 'r Sphere"
  mCapsules :: "string \<rightharpoonup> 'r Capsule"
  mLines :: "string \<rightharpoonup> 'r Line"
  mMeshes :: "string \<rightharpoonup> 'r Mesh"
  mTextures :: "string \<rightharpoonup> Texture"
  mText :: "string \<rightharpoonup> Text"
  mButtons :: "string \<rightharpoonup> 'click Button"
  mSliders :: "string \<rightharpoonup> ('r, 'change) Slider"
  mPlots :: "string \<rightharpoonup> 'r Plot"

text \<open>
  The pending-flush state: the autoflush flag, the commands buffered in \<open>mJson\<close>
  (kept here as the list of their texts, oldest first, where the header holds them
  in one \<open>std::stringstream\<close>), and the messages handed to the transport so far,
  oldest first, each the list of the commands it carries.
\<close>

record command_queue =
  mAutoflush :: bool
  mJson :: "string list"
  outbound :: "string list list"

section \<open>Operations declared in the header\<close>

text \<open>
  Modelled from the spec: the body of \<open>flush\<close> is missing. Section 4.4: an explicit
  flush serializes the entire buffer as one message and clears it; on an empty buffer
  it is a no-op and no message is sent.
\<close>

definition flush :: "command_queue \<Rightarrow> command_queue" where
  "flush q =
     (if mJson q = [] then q
      else q\<lparr>outbound := outbound q @ [mJson q], mJson := []\<rparr>)"

text \<open>
  Modelled from the spec: the body of \<open>queueCommand\<close> is missing. Section 4.4: the
  command that \<open>writeCommand\<close> writes is put at the end of the buffer; with autoflush
  on it is sent at once as a message of its own, with autoflush off it stays buffered.
\<close>

definition queueCommand :: "(sstream \<Rightarrow> sstream) \<Rightarrow> command_queue \<Rightarrow> command_queue" where
  "queueCommand writeCommand q =
     (let q' = q\<lparr>mJson := mJson q @ [writeCommand []]\<rparr>
      in if mAutoflush q' then flush q' else q')"

text \<open>A sequence of mutations, each enqueueing its command, in call order.\<close>

fun queueCommands :: "(sstream \<Rightarrow> sstream) list \<Rightarrow> command_queue \<Rightarrow> command_queue" where
  "queueCommands [] q = q"
| "queueCommands (w # ws) q = queueCommands ws (queueCommand w q)"

text \<open>\<open>Eigen::Vector3s::Zero()\<close>.\<close>

definition Zero3 :: "'r::zero s_t Vector3" where
  "Zero3 = (Finite 0, Finite 0, Finite 0)"

text \<open>
  The bodies of the four getters are missing. By sections 3 and 4.1 of the spec a
  getter looks the key up in the kind containers in a fixed order of kinds and returns
  the field of the kind that owns the key, or the zero vector when no kind that has
  the field owns it. The order taken here is the one in which the header declares the
  containers; the kinds that have the field are the ones the header's comments name.
\<close>

text \<open>
  Modelled from the spec: the body of \<open>getObjectPosition\<close> is missing. The position
  of the box, sphere, capsule or mesh under the key; zero for a line and for an absent
  key.
\<close>

definition getObjectPosition :: "('r::zero, 'click, 'change) scene \<Rightarrow> string \<Rightarrow> 'r s_t Vector3" where
  "getObjectPosition s k =
     (case mBoxes s k of Some b \<Rightarrow> Box.pos b | None \<Rightarrow>
      case mSpheres s k of Some sp \<Rightarrow> Sphere.pos sp | None \<Rightarrow>
      case mCapsules s k of Some c \<Rightarrow> Capsule.pos c | None \<Rightarrow>
      case mMeshes s k of Some m \<Rightarrow> Mesh.pos m | None \<Rightarrow> Zero3)"

text \<open>
  Modelled from the spec: the body of \<open>getObjectRotation\<close> is missing. The Euler
  angles of the box, capsule or mesh under the key; zero for a sphere, for a line and
  for an absent key.
\<close>

definition getObjectRotation :: "('r::zero, 'click, 'change) scene \<Rightarrow> string \<Rightarrow> 'r s_t Vector3" where
  "getObjectRotation s k =
     (case mBoxes s k of Some b \<Rightarrow> Box.euler b | None \<Rightarrow>
      case mCapsules s k of Some c \<Rightarrow> Capsule.euler c | None \<Rightarrow>
      case mMeshes s k of Some m \<Rightarrow> Mesh.euler m | None \<Rightarrow> Zero3)"

text \<open>
  Modelled from the spec: the body of \<open>getObjectColor\<close> is missing. The colour of the
  object under the key, of whichever of the five kinds; zero for an absent key.
\<close>

definition getObjectColor :: "('r::zero, 'click, 'change) scene \<Rightarrow> string \<Rightarrow> 'r s_t Vector3" where
  "getObjectColor s k =
     (case mBoxes s k of Some b \<Rightarrow> Box.color b | None \<Rightarrow>
      case mSpheres s k of Some sp \<Rightarrow> Sphere.color sp | None \<Rightarrow>
      case mCapsules s k of Some c \<Rightarrow> Capsule.color c | None \<Rightarrow>
      case mLines s k of Some l \<Rightarrow> Line.color l | None \<Rightarrow>
      case mMeshes s k of Some m \<Rightarrow> Mesh.color m | None \<Rightarrow> Zero3)"

text \<open>
  Modelled from the spec: the body of \<open>getObjectScale\<close> is missing. The size of a box,
  the radius three times for a sphere, radius, radius and height for a capsule, the
  scale of a mesh; zero for a line and for an absent key.
\<close>

definition getObjectScale :: "('r::zero, 'click, 'change) scene \<Rightarrow> string \<Rightarrow> 'r s_t Vector3" where
  "getObjectScale s k =
     (case mBoxes s k of Some b \<Rightarrow> Box.size b | None \<Rightarrow>
      case mSpheres s k of Some sp \<Rightarrow> (Sphere.radius sp, Sphere.radius sp, Sphere.radius sp) | None \<Rightarrow>
      case mCapsules s k of Some c \<Rightarrow> (Capsule.radius c, Capsule.radius c, Capsule.height c) | None \<Rightarrow>
      case mLines s k of Some l \<Rightarrow> Zero3 | None \<Rightarrow>
      case mMeshes s k of Some m \<Rightarrow> Mesh.scale m | None \<Rightarrow> Zero3)"

text \<open>Whether the string \<open>k\<close> begins with the string \<open>p\<close>, character by character.\<close>

fun starts_with :: "string \<Rightarrow> string \<Rightarrow> bool" where
  "starts_with k [] = True"
| "starts_with [] (p # ps) = False"
| "starts_with (c # cs) (p # ps) = (c = p \<and> starts_with cs ps)"

text \<open>
  Modelled from the spec: the loop of \<open>deleteObjectsByPrefix\<close> over one container is
  missing. Every entry whose key begins with the prefix is erased; the others stay.
\<close>

definition erase_prefix :: "string \<Rightarrow> (string \<rightharpoonup> 'v) \<Rightarrow> (string \<rightharpoonup> 'v)" where
  "erase_prefix prefix m = (\<lambda>k. if starts_with k prefix then None else m k)"

text \<open>
  Modelled from the spec: the body of \<open>deleteObjectsByPrefix\<close> is missing. Sections 3
  and 4.1: bulk deletion matches keys by exact string prefix across every kind and
  removes the objects and their mouse-interaction flags. Only the store is modelled;
  the commands that the deletion enqueues for the viewer are not.
\<close>

definition deleteObjectsByPrefix ::
  "string \<Rightarrow> ('r, 'click, 'change) scene \<Rightarrow> ('r, 'click, 'change) scene" where
  "deleteObjectsByPrefix prefix s =
     s\<lparr>mMouseInteractionEnabled :=
         Set.filter (\<lambda>k. \<not> starts_with k prefix) (mMouseInteractionEnabled s),
       mBoxes := erase_prefix prefix (mBoxes s),
       mSpheres := erase_prefix prefix (mSpheres s),
       mCapsules := erase_prefix prefix (mCapsules s),
       mLines := erase_prefix prefix (mLines s),
       mMeshes := erase_prefix prefix (mMeshes s),
       mTextures := erase_prefix prefix (mTextures s),
       mText := erase_prefix prefix (mText s),
       mButtons := erase_prefix prefix (mButtons s),
       mSliders := erase_prefix prefix (mSliders s),
       mPlots := erase_prefix prefix (mPlots s)\<rparr>"

text \<open>What the ten kind containers hold under one key.\<close>

definition stored_under ::
  "('r, 'click, 'change) scene \<Rightarrow> string \<Rightarrow>
   'r Box option \<times> 'r Sphere option \<times> 'r Capsule option \<times> 'r Line option \<times> 'r Mesh option \<times>
   Texture option \<times> Text option \<times> 'click Button option \<times> ('r, 'change) Slider option \<times>
   'r Plot option" where
  "stored_under s k =
     (mBoxes s k, mSpheres s k, mCapsules s k, mLines s k, mMeshes s k,
      mTextures s k, mText s k, mButtons s k, mSliders s k, mPlots s k)"

definition nothing_stored ::
   "'r Box option \<times> 'r Sphere option \<times> 'r Capsule option \<times> 'r Line option \<times> 'r Mesh option \<times>
   Texture option \<times> Text option \<times> 'click Button option \<times> ('r, 'change) Slider option \<times>
   'r Plot option" where
  "nothing_stored = (None, None, None, None, None, None, None, None, None, None)"

text \<open>A small scene, for trying the operations on.\<close>

definition example_scene :: "(int, unit, unit) scene" where
  "example_scene =
     \<lparr>mMouseInteractionEnabled = {''world/box'', ''robot/ball''},
      mBoxes = [''world/box'' \<mapsto>
        \<lparr>Box.key = ''world/box'', size = (Finite 1, Finite 2, Finite 3),
         pos = (Finite 4, Finite 0, Finite 0), euler = (Finite 0, Finite 0, Finite 0),
         color = (Finite 1, Finite 1, Finite 1), castShadows = False,
         receiveShadows = False\<rparr>],
      mSpheres = [''robot/ball'' \<mapsto>
        \<lparr>Sphere.key = ''robot/ball'', radius = Finite 5, pos = (Finite 0, Finite 6, Finite 0),
         color = (Finite 1, Finite 0, Finite 0), castShadows = True,
         receiveShadows = False\<rparr>],
      mCapsules = Map.empty,
      mLines = [''world/path'' \<mapsto>
        \<lparr>Line.key = ''world/path'',
         points = [(Finite 0, Finite 0, Finite 0), (Finite 1, Finite 1, Finite 1)],
         color = (Finite 0, Finite 1, Finite 0)\<rparr>],
      mMeshes = Map.empty,
      mTextures = Map.empty,
      mText = [''world/title'' \<mapsto>
        \<lparr>Text.key = ''world/title'', contents = ''hello'', fromTopLeft = (10, 10),
         size = (100, 20)\<rparr>],
      mButtons = Map.empty,
      mSliders = Map.empty,
      mPlots = Map.empty\<rparr>"

section \<open>Properties of the JSON helpers\<close>

subsection \<open>escapeJson\<close>

text \<open>
  Claim C2. \<open>escapeJson\<close> returns its argument unchanged, whatever characters it
  holds: nothing is escaped.
\<close>

theorem escapeJson_identity: "escapeJson s = s"
  by (simp add: escapeJson_def)

subsection \<open>The two loops\<close>

lemma comma_separated_Cons:
  "comma_separated (e # es) = e @ (if es = [] then [] else '','' @ comma_separated es)"
  by (cases es) simp_all

text \<open>
  Entered at \<open>i\<close>, the loop of \<open>vecToJson\<close> appends the rest of the elements,
  comma separated, each written by \<open>put\<close> when finite and as \<open>0.0\<close> otherwise.
\<close>

lemma vecToJson_loop_run:
  "i \<le> length vec \<Longrightarrow> length vec \<le> INT_MAX \<Longrightarrow>
   vecToJson_loop put vec i json =
   Some (json @ comma_separated (map (\<lambda>x. if isfinite x then put x else ''0.0'') (drop i vec)))"
proof (induction "length vec - i" arbitrary: i json)
  case 0
  then show ?case by simp
next
  case (Suc n)
  let ?f = "\<lambda>x. if isfinite x then put x else ''0.0''"
  from Suc.hyps(2) have lt: "i < length vec" by simp
  with Suc.prems have ne: "i \<noteq> INT_MAX" by simp
  have dr: "drop i vec = vec ! i # drop (Suc i) vec"
    using lt by (simp add: Cons_nth_drop_Suc)
  have IH: "vecToJson_loop put vec (Suc i) j =
      Some (j @ comma_separated (map ?f (drop (Suc i) vec)))" for j
    using Suc.hyps(2) lt Suc.prems(2) by (intro Suc.hyps(1)) simp_all
  show ?case
  proof (cases "i < length vec - 1")
    case True
    then have "drop (Suc i) vec \<noteq> []" and "i < length vec - Suc 0" by simp_all
    then show ?thesis
      by (subst vecToJson_loop.simps)
         (simp add: lt ne Let_def IH dr comma_separated_Cons del: vecToJson_loop.simps)
  next
    case False
    then have "drop (Suc i) vec = []" and "\<not> i < length vec - Suc 0" by simp_all
    then show ?thesis
      by (subst vecToJson_loop.simps)
         (simp add: lt ne Let_def IH dr del: vecToJson_loop.simps)
  qed
qed

text \<open>The loop of \<open>vecXToJson\<close> does the same with every element written by \<open>put\<close>.\<close>

lemma vecXToJson_loop_run:
  "i \<le> length vec \<Longrightarrow> length vec \<le> INT_MAX \<Longrightarrow>
   vecXToJson_loop put vec i json = Some (json @ comma_separated (map put (drop i vec)))"
proof (induction "length vec - i" arbitrary: i json)
  case 0
  then show ?case by simp
next
  case (Suc n)
  from Suc.hyps(2) have lt: "i < length vec" by simp
  with Suc.prems have ne: "i \<noteq> INT_MAX" by simp
  have dr: "drop i vec = vec ! i # drop (Suc i) vec"
    using lt by (simp add: Cons_nth_drop_Suc)
  have IH: "vecXToJson_loop put vec (Suc i) j =
      Some (j @ comma_separated (map put (drop (Suc i) vec)))" for j
    using Suc.hyps(2) lt Suc.prems(2) by (intro Suc.hyps(1)) simp_all
  show ?case
  proof (cases "i < length vec - 1")
    case True
    then have "drop (Suc i) vec \<noteq> []" and "i < length vec - Suc 0" by simp_all
    then show ?thesis
      by (subst vecXToJson_loop.simps)
         (simp add: lt ne Let_def IH dr comma_separated_Cons del: vecXToJson_loop.simps)
  next
    case False
    then have "drop (Suc i) vec = []" and "\<not> i < length vec - Suc 0" by simp_all
    then show ?thesis
      by (subst vecXToJson_loop.simps)
         (simp add: lt ne Let_def IH dr del: vecXToJson_loop.simps)
  qed
qed

subsection \<open>vecToJson: non-finite elements of a series\<close>

text \<open>
  Claim C1. For a series \<open>vec\<close> (a \<open>std::vector<s_t>\<close> whose size the \<open>int\<close>
  counter can reach), \<open>vecToJson\<close> appends to the stream a JSON array with one
  element per element of \<open>vec\<close>, in order: the text \<open>0.0\<close> where the element is NaN
  or an infinity, and what \<open><<\<close> writes for the element itself where it is finite.
\<close>

theorem vecToJson_coerces_non_finite:
  assumes "length vec \<le> INT_MAX"
  shows "vecToJson put json vec =
           Some (json @ json_array (map (\<lambda>x. if isfinite x then put x else ''0.0'') vec))"
  using assms
  by (simp add: vecToJson_def json_array_def vecToJson_loop_run del: vecToJson_loop.simps)

theorem vecToJson_coerces_non_finite_witness:
  "length [Finite (7::nat), NaN, Finite 2, PosInf, NegInf] \<le> INT_MAX \<and>
   vecToJson (\<lambda>x. case x of Finite n \<Rightarrow> replicate n (CHR ''1'') | _ \<Rightarrow> ''nan'') ''xs:''
       [Finite (7::nat), NaN, Finite 2, PosInf, NegInf]
     = Some ''xs:[1111111,0.0,11,0.0,0.0]''"
proof -
  have small: "length [Finite (7::nat), NaN, Finite 2, PosInf, NegInf] \<le> INT_MAX"
    by (simp add: INT_MAX_def)
  show ?thesis
    using small vecToJson_coerces_non_finite [OF small,
      of "\<lambda>x. case x of Finite n \<Rightarrow> replicate n (CHR ''1'') | _ \<Rightarrow> ''nan''" "''xs:''"]
    by (simp add: json_array_def eval_nat_numeral)
qed

subsection \<open>Fixed-size vectors\<close>












subsection \<open>Eigen vectors are not coerced\<close>

text \<open>
  Claim C10. \<open>vecXToJson\<close> (for a vector whose size the \<open>int\<close> counter can reach)
  and \<open>vec3ToJson\<close> write every component as \<open><<\<close> writes it, finite or not: no
  component is replaced by \<open>0.0\<close>.
\<close>

theorem eigen_vectors_not_coerced:
  assumes "length vec \<le> INT_MAX"
  shows "vecXToJson put json vec = Some (json @ json_array (map put vec)) \<and>
         vec3ToJson put json (v0, v1, v2) = json @ json_array (map put [v0, v1, v2])"
  using assms
  by (simp add: vecXToJson_def vec3ToJson_def json_array_def vecXToJson_loop_run
      del: vecXToJson_loop.simps)

theorem eigen_vectors_not_coerced_witness:
  "length [Finite (3::nat), NaN, PosInf] \<le> INT_MAX \<and>
   vecXToJson (\<lambda>x. case x of Finite n \<Rightarrow> replicate n (CHR ''1'') | NaN \<Rightarrow> ''nan'' | _ \<Rightarrow> ''inf'')
       [] [Finite (3::nat), NaN, PosInf] = Some ''[111,nan,inf]'' \<and>
   vec3ToJson (\<lambda>x. case x of Finite n \<Rightarrow> replicate n (CHR ''1'') | NaN \<Rightarrow> ''nan'' | _ \<Rightarrow> ''inf'')
       [] (NegInf, Finite (1::nat), NaN) = ''[inf,1,nan]''"
proof -
  have small: "length [Finite (3::nat), NaN, PosInf] \<le> INT_MAX"
    by (simp add: INT_MAX_def)
  show ?thesis
    using small eigen_vectors_not_coerced [OF small,
      of "\<lambda>x. case x of Finite n \<Rightarrow> replicate n (CHR ''1'') | NaN \<Rightarrow> ''nan'' | _ \<Rightarrow> ''inf''"
         "[]" NegInf "Finite 1" NaN]
    by (simp add: json_array_def eval_nat_numeral)
qed

section \<open>Properties of the server operations\<close>

subsection \<open>Flushing the command buffer\<close>

text \<open>With autoflush off, enqueueing only lengthens the buffer.\<close>

lemma queueCommands_buffered:
  "\<not> mAutoflush q \<Longrightarrow>
   queueCommands ws q = q\<lparr>mJson := mJson q @ map (\<lambda>w. w []) ws\<rparr>"
  by (induction ws arbitrary: q) (simp_all add: queueCommand_def Let_def)

text \<open>
  Claim C3. With autoflush off and nothing buffered, enqueueing the commands of a
  non-empty sequence of mutations and then calling \<open>flush\<close> once hands the transport
  exactly one more message, which carries exactly those commands in the order they
  were enqueued, and leaves the buffer empty; a second \<open>flush\<close> then changes nothing
  and sends nothing.
\<close>

theorem flush_sends_buffer_once:
  assumes "\<not> mAutoflush q" and "mJson q = []" and "ws \<noteq> []"
  shows "outbound (flush (queueCommands ws q)) = outbound q @ [map (\<lambda>w. w []) ws] \<and>
         mJson (flush (queueCommands ws q)) = [] \<and>
         flush (flush (queueCommands ws q)) = flush (queueCommands ws q)"
  using assms by (simp add: queueCommands_buffered flush_def)

theorem flush_sends_buffer_once_witness:
  "\<not> mAutoflush \<lparr>mAutoflush = False, mJson = [], outbound = [[''old'']]\<rparr> \<and>
   mJson \<lparr>mAutoflush = False, mJson = [], outbound = [[''old'']]\<rparr> = [] \<and>
   [(\<lambda>j. j @ ''a''), (\<lambda>j. j @ ''b''), (\<lambda>j. j @ ''c'')] \<noteq> [] \<and>
   outbound (flush (queueCommands [(\<lambda>j. j @ ''a''), (\<lambda>j. j @ ''b''), (\<lambda>j. j @ ''c'')]
      \<lparr>mAutoflush = False, mJson = [], outbound = [[''old'']]\<rparr>))
     = [[''old''], [''a'', ''b'', ''c'']]"
  using flush_sends_buffer_once [of "\<lparr>mAutoflush = False, mJson = [], outbound = [[''old'']]\<rparr>"
      "[(\<lambda>j. j @ ''a''), (\<lambda>j. j @ ''b''), (\<lambda>j. j @ ''c'')]"]
  by simp

subsection \<open>Getters on keys that own no such field\<close>

text \<open>
  Claim C4. For a key that is in none of the containers of boxes, spheres, capsules
  and meshes, \<open>getObjectPosition\<close>, \<open>getObjectRotation\<close> and \<open>getObjectScale\<close>
  return the zero vector: so they do for an absent key and for the key of a line. If
  the key is in the container of lines neither, \<open>getObjectColor\<close> returns the zero
  vector too. The getters are total and their result is a plain vector: there is no
  error for them to raise.
\<close>

theorem getters_degrade:
  assumes "mBoxes s k = None" and "mSpheres s k = None" and "mCapsules s k = None"
    and "mMeshes s k = None"
  shows "getObjectPosition s k = Zero3 \<and> getObjectRotation s k = Zero3 \<and>
         getObjectScale s k = Zero3 \<and> (mLines s k = None \<longrightarrow> getObjectColor s k = Zero3)"
  using assms
  by (simp add: getObjectPosition_def getObjectRotation_def getObjectScale_def
      getObjectColor_def split: option.split)

theorem getters_degrade_witness:
  "mBoxes example_scene ''missing'' = None \<and> mSpheres example_scene ''missing'' = None \<and>
   mCapsules example_scene ''missing'' = None \<and> mMeshes example_scene ''missing'' = None \<and>
   mLines example_scene ''missing'' = None \<and>
   getObjectPosition example_scene ''missing'' = Zero3 \<and>
   getObjectRotation example_scene ''missing'' = Zero3 \<and>
   getObjectScale example_scene ''missing'' = Zero3 \<and>
   getObjectColor example_scene ''missing'' = Zero3 \<and>
   mBoxes example_scene ''world/path'' = None \<and> mSpheres example_scene ''world/path'' = None \<and>
   mCapsules example_scene ''world/path'' = None \<and> mMeshes example_scene ''world/path'' = None \<and>
   mLines example_scene ''world/path'' \<noteq> None \<and>
   getObjectScale example_scene ''world/path'' = Zero3 \<and>
   getObjectColor example_scene ''world/path'' = (Finite 0, Finite 1, Finite 0)"
proof -
  have absent: "mBoxes example_scene ''missing'' = None" "mSpheres example_scene ''missing'' = None"
      "mCapsules example_scene ''missing'' = None" "mMeshes example_scene ''missing'' = None"
      "mLines example_scene ''missing'' = None"
    by (simp_all add: example_scene_def)
  have line: "mBoxes example_scene ''world/path'' = None"
      "mSpheres example_scene ''world/path'' = None"
      "mCapsules example_scene ''world/path'' = None"
      "mMeshes example_scene ''world/path'' = None"
    by (simp_all add: example_scene_def)
  have line': "mLines example_scene ''world/path'' \<noteq> None"
      "getObjectColor example_scene ''world/path'' = (Finite 0, Finite 1, Finite 0)"
    by (simp_all add: example_scene_def getObjectColor_def)
  show ?thesis
    using getters_degrade [OF absent(1-4)] getters_degrade [OF line] absent line line'
    by simp
qed

subsection \<open>Deleting by prefix\<close>

lemma starts_with_iff: "starts_with k p \<longleftrightarrow> (\<exists>rest. k = p @ rest)"
  by (induction k p rule: starts_with.induct) auto

text \<open>
  Claim C7. After \<open>deleteObjectsByPrefix prefix\<close>, a key that starts with
  \<open>prefix\<close> is in none of the ten kind containers and has no mouse-interaction flag;
  under a key that does not start with \<open>prefix\<close> every container holds what it held
  before, and the key's mouse-interaction flag is as before.
\<close>

theorem prefix_deletion:
  "((\<exists>rest. k = prefix @ rest) \<longrightarrow>
       stored_under (deleteObjectsByPrefix prefix s) k = nothing_stored \<and>
       k \<notin> mMouseInteractionEnabled (deleteObjectsByPrefix prefix s)) \<and>
   (\<not> (\<exists>rest. k = prefix @ rest) \<longrightarrow>
       stored_under (deleteObjectsByPrefix prefix s) k = stored_under s k \<and>
       (k \<in> mMouseInteractionEnabled (deleteObjectsByPrefix prefix s)
          \<longleftrightarrow> k \<in> mMouseInteractionEnabled s))"
  by (simp add: deleteObjectsByPrefix_def stored_under_def nothing_stored_def erase_prefix_def
      flip: starts_with_iff)

theorem prefix_deletion_witness:
  "(\<exists>rest. ''world/box'' = ''world/'' @ rest) \<and>
   mBoxes example_scene ''world/box'' \<noteq> None \<and>
   stored_under (deleteObjectsByPrefix ''world/'' example_scene) ''world/box'' = nothing_stored \<and>
   ''world/box'' \<notin> mMouseInteractionEnabled (deleteObjectsByPrefix ''world/'' example_scene) \<and>
   \<not> (\<exists>rest. ''robot/ball'' = ''world/'' @ rest) \<and>
   mSpheres example_scene ''robot/ball'' \<noteq> None \<and>
   stored_under (deleteObjectsByPrefix ''world/'' example_scene) ''robot/ball''
     = stored_under example_scene ''robot/ball'' \<and>
   ''robot/ball'' \<in> mMouseInteractionEnabled (deleteObjectsByPrefix ''world/'' example_scene)"
proof -
  have yes: "\<exists>rest. ''world/box'' = ''world/'' @ rest" by simp
  have no: "\<not> (\<exists>rest. ''robot/ball'' = ''world/'' @ rest)" by simp
  have there: "mBoxes example_scene ''world/box'' \<noteq> None"
      "mSpheres example_scene ''robot/ball'' \<noteq> None"
      "''robot/ball'' \<in> mMouseInteractionEnabled example_scene"
    by (simp_all add: example_scene_def)
  show ?thesis
    using prefix_deletion [of "''world/box''" "''world/''" example_scene]
      prefix_deletion [of "''robot/ball''" "''world/''" example_scene] yes no there
    by simp
qed

end
